theory Spec2Isabelle
  imports Main
begin

section \<open>TurboVue: the function \<open>createTurboResource\<close>\<close>

text \<open>
  The development follows the most complete version of the source (the one with the
  environment triggers and the staleness tracker). JavaScript values of type \<open>T\<close>,
  \<open>unknown\<close> and \<open>any\<close> are one type variable \<open>'a\<close>; \<open>undefined\<close> is \<open>None\<close>.
  Dates are milliseconds (\<open>getTime()\<close>) of type \<open>int\<close>.
\<close>

subsection \<open>Keys\<close>

text \<open>\<open>TurboVueKey = () => string | false | null\<close>; calling it may also throw.\<close>

datatype key_value = KString string | KFalse | KNull

datatype key_outcome = Returns key_value | Throws string

text \<open>\<open>computed(function () { try { return key() } catch { return null } })\<close>\<close>

fun computedKey :: "key_outcome \<Rightarrow> key_value" where
  "computedKey (Returns k) = k"
| "computedKey (Throws x) = KNull"

text \<open>
  The tests \<open>if (computedKey.value)\<close> and \<open>if (!key) return\<close>: a key is active when it is
  truthy, that is a non-empty string. The result is the string the cache is called with.
\<close>

fun active_key :: "key_value \<Rightarrow> string option" where
  "active_key (KString k) = (if k = [] then None else Some k)"
| "active_key KFalse = None"
| "active_key KNull = None"

subsection \<open>Options\<close>

text \<open>
  An optional property of an options object: not an own property of the object, an own
  property that holds \<open>undefined\<close>, or an own property that holds a value.
\<close>

datatype 'a field = Absent | Undefined | Value 'a

text \<open>Reading a property: one that is absent reads as \<open>undefined\<close>, which is \<open>None\<close>.\<close>

fun read_field :: "'a field \<Rightarrow> 'a option" where
  "read_field Absent = None"
| "read_field Undefined = None"
| "read_field (Value v) = Some v"

text \<open>
  \<open>TurboQueryOptions\<close> belongs to the cache engine: the source itself only writes
  \<open>stale\<close>; every other property, by its name, is passed through.
\<close>

record turbo_query_options =
  opt_stale :: "bool field"
  opt_passthrough :: "string \<Rightarrow> string field"

text \<open>\<open>interface TurboVueOptions extends TurboQueryOptions\<close>, every property optional.\<close>

record turbo_vue_options = turbo_query_options +
  opt_turbo :: "nat field"
  opt_refetchOnFocus :: "bool field"
  opt_refetchOnConnect :: "bool field"
  opt_focusInterval :: "int field"
  opt_clearOnForget :: "bool field"

text \<open>
  What a resource is created with: the optional \<open>options\<close> argument, the optional injected
  context (\<open>inject(injectionKey)\<close>) and whether \<open>typeof window !== 'undefined'\<close>.
\<close>

record resource_env =
  options :: "turbo_vue_options option"
  contextOptions :: "turbo_vue_options option"
  hasWindow :: bool

text \<open>\<open>x?.f\<close>: \<open>undefined\<close> when the object is, else what reading the property gives.\<close>

definition optional :: "('o \<Rightarrow> 'b field) \<Rightarrow> 'o option \<Rightarrow> 'b option" where
  "optional f x = (case x of None \<Rightarrow> None | Some y \<Rightarrow> read_field (f y))"

text \<open>\<open>options?.f ?? contextOptions?.f ?? d\<close>\<close>

definition resolve :: "(turbo_vue_options \<Rightarrow> 'b field) \<Rightarrow> resource_env \<Rightarrow> 'b \<Rightarrow> 'b" where
  "resolve f env d =
     (case optional f (options env) of
        Some x \<Rightarrow> x
      | None \<Rightarrow> (case optional f (contextOptions env) of
                   Some y \<Rightarrow> y
                 | None \<Rightarrow> d))"

text \<open>
  The cache engine whose primitives are used: the instance of \<open>options.turbo\<close>, else the
  one of the context, else the functions exported by the module \<open>turbo-query\<close>.
\<close>

datatype engine = ModuleEngine | InstanceEngine nat

definition turbo :: "resource_env \<Rightarrow> engine" where
  "turbo env =
     (case optional opt_turbo (options env) of
        Some i \<Rightarrow> InstanceEngine i
      | None \<Rightarrow> (case optional opt_turbo (contextOptions env) of
                   Some j \<Rightarrow> InstanceEngine j
                 | None \<Rightarrow> ModuleEngine))"

definition refetchOnFocus :: "resource_env \<Rightarrow> bool" where
  "refetchOnFocus env = resolve opt_refetchOnFocus env True"

definition refetchOnConnect :: "resource_env \<Rightarrow> bool" where
  "refetchOnConnect env = resolve opt_refetchOnConnect env True"

definition focusInterval :: "resource_env \<Rightarrow> int" where
  "focusInterval env = resolve opt_focusInterval env 5000"

definition clearOnForget :: "resource_env \<Rightarrow> bool" where
  "clearOnForget env = resolve opt_clearOnForget env False"

text \<open>
  Object spread \<open>{ ...a, ...b }\<close>, property by property: an own property of \<open>b\<close> replaces
  that of \<open>a\<close>, also when it holds \<open>undefined\<close>.
\<close>

fun over :: "'b field \<Rightarrow> 'b field \<Rightarrow> 'b field" where
  "over a Absent = a"
| "over a Undefined = Undefined"
| "over a (Value v) = Value v"

text \<open>The own property of an object that may itself be \<open>undefined\<close>, which spreads nothing.\<close>

definition own :: "('o \<Rightarrow> 'b field) \<Rightarrow> 'o option \<Rightarrow> 'b field" where
  "own f x = (case x of None \<Rightarrow> Absent | Some y \<Rightarrow> f y)"

text \<open>\<open>{ ...a, ...options }\<close>: every property of the options is copied.\<close>

definition spread :: "turbo_vue_options \<Rightarrow> turbo_vue_options option \<Rightarrow> turbo_vue_options" where
  "spread a b =
     \<lparr>opt_stale = over (opt_stale a) (own opt_stale b),
      opt_passthrough = (\<lambda>n. over (opt_passthrough a n) (own (\<lambda>x. opt_passthrough x n) b)),
      opt_turbo = over (opt_turbo a) (own opt_turbo b),
      opt_refetchOnFocus = over (opt_refetchOnFocus a) (own opt_refetchOnFocus b),
      opt_refetchOnConnect = over (opt_refetchOnConnect a) (own opt_refetchOnConnect b),
      opt_focusInterval = over (opt_focusInterval a) (own opt_focusInterval b),
      opt_clearOnForget = over (opt_clearOnForget a) (own opt_clearOnForget b)\<rparr>"

text \<open>\<open>{ ...a, ...ops }\<close> for \<open>ops?: TurboQueryOptions\<close>.\<close>

definition spread_query ::
  "turbo_vue_options \<Rightarrow> turbo_query_options option \<Rightarrow> turbo_vue_options" where
  "spread_query a b =
     a\<lparr>opt_stale := over (opt_stale a) (own opt_stale b),
       opt_passthrough :=
         (\<lambda>n. over (opt_passthrough a n) (own (\<lambda>x. opt_passthrough x n) b))\<rparr>"

text \<open>The object literal \<open>{ stale: b }\<close>.\<close>

definition only_stale :: "bool \<Rightarrow> turbo_vue_options" where
  "only_stale b =
     \<lparr>opt_stale = Value b, opt_passthrough = (\<lambda>n. Absent), opt_turbo = Absent,
      opt_refetchOnFocus = Absent, opt_refetchOnConnect = Absent, opt_focusInterval = Absent,
      opt_clearOnForget = Absent\<rparr>"

text \<open>\<open>{ stale: true, ...options }\<close>\<close>

definition initial_options :: "resource_env \<Rightarrow> turbo_vue_options" where
  "initial_options env = spread (only_stale True) (options env)"

text \<open>\<open>{ stale: false, ...options, ...ops }\<close>\<close>

definition refetch_options ::
  "resource_env \<Rightarrow> turbo_query_options option \<Rightarrow> turbo_vue_options" where
  "refetch_options env ops = spread_query (spread (only_stale False) (options env)) ops"

subsection \<open>The state of a resource\<close>

datatype event_kind = Mutated | Refetching | Resolved | Errored | Forgotten

datatype 'a cache_event =
    EvMutated 'a
  | EvRefetching
  | EvResolved 'a
  | EvError "'a option"
  | EvForgotten

fun kind_of :: "'a cache_event \<Rightarrow> event_kind" where
  "kind_of (EvMutated item) = Mutated"
| "kind_of EvRefetching = Refetching"
| "kind_of (EvResolved item) = Resolved"
| "kind_of (EvError e) = Errored"
| "kind_of EvForgotten = Forgotten"

text \<open>
  A registered callback: a subscription at the cache engine for a key and an event kind,
  or a listener of the window for \<open>focus\<close> or \<open>online\<close>.
\<close>

datatype listener = CacheListener string event_kind | FocusListener | OnlineListener

text \<open>
  What \<open>turboSubscribe\<close>, \<open>onFocus\<close> and \<open>onConnect\<close> return: a function that removes the
  registered callback, or \<open>() => {}\<close>.
\<close>

datatype disposer = Unsubscribe nat | RemoveListener nat | Noop

text \<open>The code after an \<open>await turboQuery(...)\<close> inside \<open>createTurboResource\<close>.\<close>

datatype continuation = InitialResolution | WatcherRun "disposer list"

datatype watcher_state = NotInstalled | Active | Stopped

text \<open>Every call made to the cache engine and the window, in the order made.\<close>

datatype 'a call =
    CQuery nat engine string turbo_vue_options
  | CMutate engine string 'a
  | CForget engine string
  | CAbort engine string "'a option"
  | CSubscribe nat engine string event_kind
  | CUnsubscribe nat
  | CAddEventListener nat listener
  | CRemoveEventListener nat

text \<open>
  \<open>clock\<close> is what \<open>new Date()\<close> reads. \<open>cleanup\<close> is the function last registered with the
  key watcher's \<open>onCleanup\<close>. \<open>pending\<close> holds the queries whose result is awaited.
  \<open>thrown\<close> collects what the watchers throw into the host's error handling.
  \<open>returned\<close> and \<open>rejected\<close> tell how the promise of \<open>createTurboResource\<close> settled.
\<close>

record 'a turbo_resource =
  clock :: int
  key :: key_value
  resource :: "'a option"
  error :: "'a option"
  isRefetching :: bool
  lastFocus :: int
  watcher :: watcher_state
  cleanup :: "disposer list option"
  listeners :: "(nat \<times> listener) list"
  pending :: "(nat \<times> continuation) list"
  nextId :: nat
  trace :: "'a call list"
  thrown :: "'a list"
  returned :: bool
  rejected :: "'a option"

subsection \<open>Cache primitives and environment triggers\<close>

definition turboQuery ::
  "resource_env \<Rightarrow> string \<Rightarrow> turbo_vue_options \<Rightarrow> 'a turbo_resource \<Rightarrow> 'a turbo_resource \<times> nat" where
  "turboQuery env k ops s =
     (s\<lparr>trace := trace s @ [CQuery (nextId s) (turbo env) k ops],
        nextId := Suc (nextId s)\<rparr>,
      nextId s)"

definition turboSubscribe ::
  "resource_env \<Rightarrow> string \<Rightarrow> event_kind \<Rightarrow> 'a turbo_resource \<Rightarrow> 'a turbo_resource \<times> disposer" where
  "turboSubscribe env k ev s =
     (s\<lparr>listeners := listeners s @ [(nextId s, CacheListener k ev)],
        trace := trace s @ [CSubscribe (nextId s) (turbo env) k ev],
        nextId := Suc (nextId s)\<rparr>,
      Unsubscribe (nextId s))"

definition addEventListener :: "listener \<Rightarrow> 'a turbo_resource \<Rightarrow> 'a turbo_resource \<times> disposer" where
  "addEventListener l s =
     (s\<lparr>listeners := listeners s @ [(nextId s, l)],
        trace := trace s @ [CAddEventListener (nextId s) l],
        nextId := Suc (nextId s)\<rparr>,
      RemoveListener (nextId s))"

definition onFocus :: "resource_env \<Rightarrow> 'a turbo_resource \<Rightarrow> 'a turbo_resource \<times> disposer" where
  "onFocus env s =
     (if refetchOnFocus env \<and> hasWindow env then addEventListener FocusListener s
      else (s, Noop))"

definition onConnect :: "resource_env \<Rightarrow> 'a turbo_resource \<Rightarrow> 'a turbo_resource \<times> disposer" where
  "onConnect env s =
     (if refetchOnConnect env \<and> hasWindow env then addEventListener OnlineListener s
      else (s, Noop))"

definition remove_listener :: "nat \<Rightarrow> (nat \<times> listener) list \<Rightarrow> (nat \<times> listener) list" where
  "remove_listener i ls = filter (\<lambda>p. fst p \<noteq> i) ls"

fun dispose :: "disposer \<Rightarrow> 'a turbo_resource \<Rightarrow> 'a turbo_resource" where
  "dispose (Unsubscribe i) s =
     s\<lparr>listeners := remove_listener i (listeners s), trace := trace s @ [CUnsubscribe i]\<rparr>"
| "dispose (RemoveListener i) s =
     s\<lparr>listeners := remove_listener i (listeners s),
       trace := trace s @ [CRemoveEventListener i]\<rparr>"
| "dispose Noop s = s"

subsection \<open>Actions\<close>

text \<open>
  \<open>refetch\<close> returns a promise: \<open>None\<close> is the promise resolved with \<open>undefined\<close> without
  any call, \<open>Some q\<close> is the promise of the query call \<open>q\<close> (\<open>return await turboQuery(...)\<close>
  settles as that query settles).
\<close>

definition refetch ::
  "resource_env \<Rightarrow> turbo_query_options option \<Rightarrow> 'a turbo_resource \<Rightarrow> 'a turbo_resource \<times> nat option" where
  "refetch env ops s =
     (case active_key (key s) of
        None \<Rightarrow> (s, None)
      | Some k \<Rightarrow>
          (let (s1, q) = turboQuery env k (refetch_options env ops) s in (s1, Some q)))"

definition localMutate :: "resource_env \<Rightarrow> 'a \<Rightarrow> 'a turbo_resource \<Rightarrow> 'a turbo_resource" where
  "localMutate env item s =
     (case active_key (key s) of
        None \<Rightarrow> s
      | Some k \<Rightarrow> s\<lparr>trace := trace s @ [CMutate (turbo env) k item]\<rparr>)"

definition localForget :: "resource_env \<Rightarrow> 'a turbo_resource \<Rightarrow> 'a turbo_resource" where
  "localForget env s =
     (case active_key (key s) of
        None \<Rightarrow> s
      | Some k \<Rightarrow> s\<lparr>trace := trace s @ [CForget (turbo env) k]\<rparr>)"

definition localAbort :: "resource_env \<Rightarrow> 'a option \<Rightarrow> 'a turbo_resource \<Rightarrow> 'a turbo_resource" where
  "localAbort env reason s =
     (case active_key (key s) of
        None \<Rightarrow> s
      | Some k \<Rightarrow> s\<lparr>trace := trace s @ [CAbort (turbo env) k reason]\<rparr>)"

text \<open>
  The handler \<open>onFocus\<close> registers at the window, with \<open>listener = function () { refetch() }\<close>.
  Its two \<open>new Date()\<close> read the clock at the same millisecond.
\<close>

definition rawHandler :: "resource_env \<Rightarrow> 'a turbo_resource \<Rightarrow> 'a turbo_resource" where
  "rawHandler env s =
     (let last = lastFocus s; now = clock s
      in if now - last > focusInterval env
         then fst (refetch env None (s\<lparr>lastFocus := clock s\<rparr>))
         else s)"

subsection \<open>Event callbacks\<close>

text \<open>
  Assigning the error cell, followed by the watcher on it:
  \<open>watch(error, function (e) { if (e !== undefined) throw e })\<close>. A watcher runs its
  callback when the watched value has changed.
\<close>

definition set_error :: "'a option \<Rightarrow> 'a turbo_resource \<Rightarrow> 'a turbo_resource" where
  "set_error e s =
     (if error s = e then s
      else (case e of
              None \<Rightarrow> s\<lparr>error := None\<rparr>
            | Some x \<Rightarrow> s\<lparr>error := Some x, thrown := thrown s @ [x]\<rparr>))"

text \<open>The five callbacks given to \<open>turboSubscribe\<close>, by the event they receive.\<close>

fun callback :: "resource_env \<Rightarrow> 'a cache_event \<Rightarrow> 'a turbo_resource \<Rightarrow> 'a turbo_resource" where
  "callback env (EvMutated item) s = s\<lparr>resource := Some item\<rparr>"
| "callback env EvRefetching s = s\<lparr>isRefetching := True\<rparr>"
| "callback env (EvResolved item) s = s\<lparr>isRefetching := False, resource := Some item\<rparr>"
| "callback env (EvError e) s = set_error e (s\<lparr>isRefetching := False\<rparr>)"
| "callback env EvForgotten s = (if clearOnForget env then s\<lparr>resource := None\<rparr> else s)"

subsection \<open>The key watcher\<close>

text \<open>
  The callback of \<open>watch(computedKey, async function (key, _old, onCleanup) ...)\<close> up to
  its \<open>await\<close>: the seven registrations and the query, whose continuation keeps the seven
  disposers.
\<close>

definition watcher_callback :: "resource_env \<Rightarrow> 'a turbo_resource \<Rightarrow> 'a turbo_resource" where
  "watcher_callback env s0 =
     (let s = s0\<lparr>isRefetching := False\<rparr>
      in case active_key (key s) of
           None \<Rightarrow> s
         | Some k \<Rightarrow>
             (let (s1, unsubscribeMutate) = turboSubscribe env k Mutated s;
                  (s2, unsubscribeRefetching) = turboSubscribe env k Refetching s1;
                  (s3, unsubscribeResolved) = turboSubscribe env k Resolved s2;
                  (s4, unsubscribeErrors) = turboSubscribe env k Errored s3;
                  (s5, unsubscribeForgotten) = turboSubscribe env k Forgotten s4;
                  (s6, unsubscribeFocusRefetch) = onFocus env s5;
                  (s7, unsubscribeConnectRefetch) = onConnect env s6;
                  (s8, q) = turboQuery env k (initial_options env) s7
              in s8\<lparr>pending := pending s8 @
                      [(q, WatcherRun [unsubscribeMutate, unsubscribeRefetching,
                                       unsubscribeResolved, unsubscribeErrors,
                                       unsubscribeForgotten, unsubscribeFocusRefetch,
                                       unsubscribeConnectRefetch])]\<rparr>))"

text \<open>
  The host runtime's side of \<open>watch\<close>: before the callback runs again, and when the
  watcher is stopped, the function registered last with \<open>onCleanup\<close> is called, if any.
  A registration stays until the next call of \<open>onCleanup\<close> replaces it.
\<close>

definition invoke_cleanup :: "'a turbo_resource \<Rightarrow> 'a turbo_resource" where
  "invoke_cleanup s = (case cleanup s of None \<Rightarrow> s | Some ds \<Rightarrow> fold dispose ds s)"

definition job :: "resource_env \<Rightarrow> 'a turbo_resource \<Rightarrow> 'a turbo_resource" where
  "job env s = watcher_callback env (invoke_cleanup s)"

text \<open>The function \<open>unsubscribe\<close> returned by \<open>watch\<close>.\<close>

definition unsubscribe :: "'a turbo_resource \<Rightarrow> 'a turbo_resource" where
  "unsubscribe s =
     (if watcher s = Active then (invoke_cleanup s)\<lparr>watcher := Stopped\<rparr> else s)"

subsection \<open>Creation\<close>

text \<open>
  \<open>createTurboResource\<close> after its initial resolution: the cell \<open>lastFocus\<close> is created,
  the key watcher is installed with \<open>immediate: true\<close>, so its callback runs at once, and
  the resource is returned.
\<close>

definition finish_create :: "resource_env \<Rightarrow> 'a turbo_resource \<Rightarrow> 'a turbo_resource" where
  "finish_create env s =
     (job env (s\<lparr>lastFocus := clock s, watcher := Active\<rparr>))\<lparr>returned := True\<rparr>"

text \<open>
  \<open>createTurboResource\<close> up to its first \<open>await\<close>, or to its end when the key is not
  active. \<open>lastFocus\<close> does not exist before \<open>finish_create\<close>; it holds the creation time
  until then and nothing reads it.
\<close>

definition createTurboResource :: "resource_env \<Rightarrow> int \<Rightarrow> key_outcome \<Rightarrow> 'a turbo_resource" where
  "createTurboResource env now k =
     (let s = \<lparr>clock = now, key = computedKey k, resource = None, error = None,
               isRefetching = False, lastFocus = now, watcher = NotInstalled,
               cleanup = None, listeners = [], pending = [], nextId = 0, trace = [],
               thrown = [], returned = False, rejected = None\<rparr>
      in case active_key (key s) of
           None \<Rightarrow> finish_create env s
         | Some ck \<Rightarrow>
             (let (s1, q) = turboQuery env ck (initial_options env) s
              in s1\<lparr>pending := pending s1 @ [(q, InitialResolution)]\<rparr>))"

text \<open>
  An awaited query settles: resolved with a value (\<open>Inr\<close>) or rejected (\<open>Inl\<close>). The
  rejection of the initial query rejects \<open>createTurboResource\<close>; the rejection inside
  the watcher's callback goes to the host's error handling. Only after its query has
  resolved does a watcher run assign the resource and register its cleanup.
\<close>

fun resume :: "resource_env \<Rightarrow> continuation \<Rightarrow> 'a + 'a \<Rightarrow> 'a turbo_resource \<Rightarrow> 'a turbo_resource" where
  "resume env InitialResolution (Inr v) s = finish_create env (s\<lparr>resource := Some v\<rparr>)"
| "resume env InitialResolution (Inl e) s = s\<lparr>rejected := Some e\<rparr>"
| "resume env (WatcherRun ds) (Inr v) s = s\<lparr>resource := Some v, cleanup := Some ds\<rparr>"
| "resume env (WatcherRun ds) (Inl e) s = s\<lparr>thrown := thrown s @ [e]\<rparr>"

subsection \<open>Events\<close>

datatype 'a event =
    Elapse nat
  | KeyChanged key_outcome
  | Settled nat "'a + 'a"
  | CacheEvent string "'a cache_event"
  | WindowFocus
  | WindowOnline
  | CallRefetch "turbo_query_options option"
  | CallMutate 'a
  | CallForget
  | CallAbort "'a option"
  | CallUnsubscribe

definition listening :: "listener \<Rightarrow> 'a turbo_resource \<Rightarrow> (nat \<times> listener) list" where
  "listening l s = filter (\<lambda>p. snd p = l) (listeners s)"

text \<open>
  One event of the environment, handled to completion. A change of the key's
  dependencies re-evaluates the key; the watcher's job runs when the watcher is active
  and the value has changed. A cache or window event calls every callback registered
  for it.
\<close>

fun step :: "resource_env \<Rightarrow> 'a event \<Rightarrow> 'a turbo_resource \<Rightarrow> 'a turbo_resource" where
  "step env (Elapse d) s = s\<lparr>clock := clock s + int d\<rparr>"
| "step env (KeyChanged k) s =
     (if watcher s = Active \<and> computedKey k \<noteq> key s
      then job env (s\<lparr>key := computedKey k\<rparr>)
      else s\<lparr>key := computedKey k\<rparr>)"
| "step env (Settled q outcome) s =
     (case map_of (pending s) q of
        None \<Rightarrow> s
      | Some c \<Rightarrow> resume env c outcome (s\<lparr>pending := filter (\<lambda>p. fst p \<noteq> q) (pending s)\<rparr>))"
| "step env (CacheEvent k ev) s =
     fold (\<lambda>l. callback env ev) (listening (CacheListener k (kind_of ev)) s) s"
| "step env WindowFocus s = fold (\<lambda>l. rawHandler env) (listening FocusListener s) s"
| "step env WindowOnline s =
     fold (\<lambda>l t. fst (refetch env None t)) (listening OnlineListener s) s"
| "step env (CallRefetch ops) s = fst (refetch env ops s)"
| "step env (CallMutate item) s = localMutate env item s"
| "step env CallForget s = localForget env s"
| "step env (CallAbort reason) s = localAbort env reason s"
| "step env CallUnsubscribe s = unsubscribe s"

definition run :: "resource_env \<Rightarrow> 'a event list \<Rightarrow> 'a turbo_resource \<Rightarrow> 'a turbo_resource" where
  "run env evs s = fold (step env) evs s"

text \<open>The queries among the calls made, without their promise ids.\<close>

fun queries :: "'a call list \<Rightarrow> (engine \<times> string \<times> turbo_vue_options) list" where
  "queries [] = []"
| "queries (CQuery q e k ops # cs) = (e, k, ops) # queries cs"
| "queries (c # cs) = queries cs"

text \<open>The key and the \<open>stale\<close> option of every query among the calls made.\<close>

fun issued_stale :: "'a call list \<Rightarrow> (string \<times> bool field) list" where
  "issued_stale [] = []"
| "issued_stale (CQuery q e k ops # cs) = (k, opt_stale ops) # issued_stale cs"
| "issued_stale (c # cs) = issued_stale cs"

text \<open>The registrations that have been disposed of, among the calls made.\<close>

fun disposals :: "'a call list \<Rightarrow> nat list" where
  "disposals [] = []"
| "disposals (CUnsubscribe i # cs) = i # disposals cs"
| "disposals (CRemoveEventListener i # cs) = i # disposals cs"
| "disposals (c # cs) = disposals cs"

subsection \<open>The staleness tracker \<open>createStale\<close>\<close>

text \<open>
  The two cells, the key last seen by the tracker's watcher (\<open>watch(computedKey, ...)\<close>
  without \<open>immediate\<close>: the watcher starts from the key at creation), the timer made by
  \<open>setInterval\<close> with the key it has captured, and whether the watcher has been stopped.
\<close>

record stale_tracker =
  isStale :: bool
  staleIn :: int
  precision :: int
  oldValue :: key_value
  interval :: "key_value option"
  stopped :: bool

text \<open>
  \<open>expiration\<close> is the function imported from the module \<open>turbo-query\<close>, as the cache
  answers it when called: the time at which a key expires, if the key is cached.
\<close>

definition createStale ::
  "(string \<Rightarrow> int option) \<Rightarrow> int \<Rightarrow> int \<Rightarrow> key_value \<Rightarrow> stale_tracker" where
  "createStale expiration prec now initialKey =
     (let initial =
        (case active_key initialKey of
           None \<Rightarrow> (True, 0)
         | Some k \<Rightarrow>
             (case expiration k of
                None \<Rightarrow> (True, 0)
              | Some expiresAt \<Rightarrow>
                  (let expirationIn = expiresAt - now
                   in (expiresAt < now, if expirationIn \<ge> 0 then expirationIn else 0))))
      in \<lparr>isStale = fst initial, staleIn = snd initial, precision = prec,
          oldValue = initialKey, interval = None, stopped = False\<rparr>)"

text \<open>The function given to \<open>setInterval\<close>, for the key the timer has captured.\<close>

definition poll_body ::
  "(string \<Rightarrow> int option) \<Rightarrow> int \<Rightarrow> key_value \<Rightarrow> stale_tracker \<Rightarrow> stale_tracker" where
  "poll_body expiration now k t =
     (case active_key k of
        None \<Rightarrow> t
      | Some ck \<Rightarrow>
          (case expiration ck of
             None \<Rightarrow> t
           | Some expiresAt \<Rightarrow>
               (let expirationIn = expiresAt - now;
                    t1 = (if expirationIn \<ge> 0 then t\<lparr>staleIn := expirationIn\<rparr>
                          else if expirationIn < 0 \<and> staleIn t > 0 then t\<lparr>staleIn := 0\<rparr>
                          else t)
                in t1\<lparr>isStale := expiresAt < now\<rparr>)))"

text \<open>A period of the timer has passed: the timer's function runs, if a timer exists.\<close>

definition poll :: "(string \<Rightarrow> int option) \<Rightarrow> int \<Rightarrow> stale_tracker \<Rightarrow> stale_tracker" where
  "poll expiration now t =
     (case interval t of None \<Rightarrow> t | Some k \<Rightarrow> poll_body expiration now k t)"

text \<open>
  The key has been re-evaluated: when its value has changed, the cleanup clears the
  timer of the previous run and the callback starts a timer for the new key.
\<close>

definition stale_key_changed :: "key_value \<Rightarrow> stale_tracker \<Rightarrow> stale_tracker" where
  "stale_key_changed k t =
     (if stopped t \<or> k = oldValue t then t
      else t\<lparr>interval := Some k, oldValue := k\<rparr>)"

text \<open>\<open>onUnmounted(function () { unsubscribe() })\<close>: stopping the watcher runs the cleanup.\<close>

definition stale_unmounted :: "stale_tracker \<Rightarrow> stale_tracker" where
  "stale_unmounted t = t\<lparr>interval := None, stopped := True\<rparr>"

subsection \<open>Scenarios\<close>

text \<open>No options, no injected context, in a browser.\<close>

definition plainEnv :: resource_env where
  "plainEnv = \<lparr>options = None, contextOptions = None, hasWindow = True\<rparr>"

text \<open>Options that set no field; the environments below set one field each.\<close>

definition noOptions :: turbo_vue_options where
  "noOptions =
     \<lparr>opt_stale = Absent, opt_passthrough = (\<lambda>n. Absent), opt_turbo = Absent,
      opt_refetchOnFocus = Absent, opt_refetchOnConnect = Absent, opt_focusInterval = Absent,
      opt_clearOnForget = Absent\<rparr>"

definition clearingEnv :: resource_env where
  "clearingEnv =
     \<lparr>options = Some (noOptions\<lparr>opt_clearOnForget := Value True\<rparr>),
      contextOptions = None, hasWindow = True\<rparr>"

text \<open>An engine instance in the options and another in the context; one in the context only.\<close>

definition instanceEnv :: resource_env where
  "instanceEnv =
     \<lparr>options = Some (noOptions\<lparr>opt_turbo := Value 1\<rparr>),
      contextOptions = Some (noOptions\<lparr>opt_turbo := Value 2\<rparr>), hasWindow = True\<rparr>"

definition contextEnv :: resource_env where
  "contextEnv =
     \<lparr>options = None, contextOptions = Some (noOptions\<lparr>opt_turbo := Value 2\<rparr>),
      hasWindow = True\<rparr>"

text \<open>Created with \<open>{ stale: true }\<close>, and with \<open>{ stale: false }\<close>.\<close>

definition staleEnv :: resource_env where
  "staleEnv =
     \<lparr>options = Some (noOptions\<lparr>opt_stale := Value True\<rparr>),
      contextOptions = None, hasWindow = True\<rparr>"

definition freshEnv :: resource_env where
  "freshEnv =
     \<lparr>options = Some (noOptions\<lparr>opt_stale := Value False\<rparr>),
      contextOptions = None, hasWindow = True\<rparr>"

text \<open>The call-site options \<open>{ stale: undefined }\<close> and \<open>{ stale: false }\<close>.\<close>

definition staleUndefined :: turbo_query_options where
  "staleUndefined = \<lparr>opt_stale = Undefined, opt_passthrough = (\<lambda>n. Absent)\<rparr>"

definition staleFalse :: turbo_query_options where
  "staleFalse = \<lparr>opt_stale = Value False, opt_passthrough = (\<lambda>n. Absent)\<rparr>"

text \<open>
  A resource created at time 0 for the key \<open>A\<close>; its initial query has resolved, the key
  watcher has run for \<open>A\<close> and awaits its own query, which has the promise id 8.
\<close>

definition awaitingA :: "resource_env \<Rightarrow> string turbo_resource" where
  "awaitingA env =
     run env [Settled 0 (Inr ''first'')] (createTurboResource env 0 (Returns (KString ''A'')))"

text \<open>The same resource after the watcher's query has resolved too.\<close>

definition settledA :: "resource_env \<Rightarrow> string turbo_resource" where
  "settledA env = run env [Settled 8 (Inr ''second'')] (awaitingA env)"

text \<open>A cache in which only the key \<open>A\<close> is present, expiring at time 1000.\<close>

definition expiresAt1000 :: "string \<Rightarrow> int option" where
  "expiresAt1000 k = (if k = ''A'' then Some 1000 else None)"

section \<open>Auxiliary facts\<close>

lemma fold_same: "(\<And>t. f (f t) = f t) \<Longrightarrow> fold (\<lambda>l. f) xs s = (if xs = [] then s else f s)"
proof (induction xs arbitrary: s)
  case Nil
  then show ?case by simp
next
  case (Cons x xs)
  then show ?case by (cases xs) simp_all
qed

lemma fold_fixed: "f s = s \<Longrightarrow> fold (\<lambda>l. f) xs s = s"
  by (induction xs) simp_all

lemma over_Absent: "over Absent b = b"
  by (cases b) simp_all

lemma queries_append: "queries (xs @ ys) = queries xs @ queries ys"
  by (induction xs rule: queries.induct) simp_all

lemmas watcher_defs = finish_create_def job_def invoke_cleanup_def watcher_callback_def
  turboQuery_def turboSubscribe_def onFocus_def onConnect_def addEventListener_def

subsection \<open>Actions\<close>

lemma refetch_inactive: "active_key (key s) = None \<Longrightarrow> refetch env ops s = (s, None)"
  by (simp add: refetch_def)

lemma refetch_active:
  "active_key (key s) = Some k \<Longrightarrow>
   refetch env ops s =
     (s\<lparr>trace := trace s @ [CQuery (nextId s) (turbo env) k (refetch_options env ops)],
        nextId := Suc (nextId s)\<rparr>, Some (nextId s))"
  by (simp add: refetch_def turboQuery_def)

lemma refetch_frame:
  "clock (fst (refetch env ops s)) = clock s \<and> lastFocus (fst (refetch env ops s)) = lastFocus s
   \<and> key (fst (refetch env ops s)) = key s \<and> listeners (fst (refetch env ops s)) = listeners s"
  by (simp add: refetch_def turboQuery_def split: option.splits)

lemma refetch_queries:
  "length (queries (trace (fst (refetch env ops s)))) \<le> Suc (length (queries (trace s)))"
  by (simp add: refetch_def turboQuery_def queries_append split: option.splits)

lemma actions_inactive:
  "active_key (key s) = None \<Longrightarrow>
     refetch env ops s = (s, None) \<and> localMutate env item s = s
     \<and> localForget env s = s \<and> localAbort env reason s = s"
  by (simp add: refetch_inactive localMutate_def localForget_def localAbort_def)

lemma actions_active:
  "active_key (key s) = Some k \<Longrightarrow>
      fst (refetch env ops s) =
        s\<lparr>trace := trace s @ [CQuery (nextId s) (turbo env) k (refetch_options env ops)],
          nextId := Suc (nextId s)\<rparr>
      \<and> snd (refetch env ops s) = Some (nextId s)
      \<and> localMutate env item s = s\<lparr>trace := trace s @ [CMutate (turbo env) k item]\<rparr>
      \<and> localForget env s = s\<lparr>trace := trace s @ [CForget (turbo env) k]\<rparr>
      \<and> localAbort env reason s = s\<lparr>trace := trace s @ [CAbort (turbo env) k reason]\<rparr>"
  by (simp add: refetch_active localMutate_def localForget_def localAbort_def)

lemma turbo_precedence:
  "(optional opt_turbo (options env) = Some i \<longrightarrow> turbo env = InstanceEngine i)
   \<and> (optional opt_turbo (options env) = None
        \<and> optional opt_turbo (contextOptions env) = Some j \<longrightarrow>
        turbo env = InstanceEngine j)
   \<and> (optional opt_turbo (options env) = None
        \<and> optional opt_turbo (contextOptions env) = None \<longrightarrow>
        turbo env = ModuleEngine)"
  by (simp add: turbo_def split: option.splits)

subsection \<open>Cleanup and the key watcher\<close>

lemma dispose_frame:
  "queries (trace (dispose d s)) = queries (trace s) \<and> key (dispose d s) = key s
   \<and> pending (dispose d s) = pending s \<and> thrown (dispose d s) = thrown s
   \<and> rejected (dispose d s) = rejected s"
  by (cases d) (simp_all add: queries_append)

lemma fold_dispose_frame:
  "queries (trace (fold dispose ds s)) = queries (trace s) \<and> key (fold dispose ds s) = key s
   \<and> pending (fold dispose ds s) = pending s \<and> thrown (fold dispose ds s) = thrown s
   \<and> rejected (fold dispose ds s) = rejected s"
  by (induction ds arbitrary: s) (simp_all add: dispose_frame)

lemma invoke_cleanup_frame:
  "queries (trace (invoke_cleanup s)) = queries (trace s) \<and> key (invoke_cleanup s) = key s
   \<and> pending (invoke_cleanup s) = pending s \<and> thrown (invoke_cleanup s) = thrown s
   \<and> rejected (invoke_cleanup s) = rejected s"
  by (simp add: invoke_cleanup_def fold_dispose_frame split: option.splits)

lemma watcher_callback_inactive:
  "active_key (key s) = None \<Longrightarrow> watcher_callback env s = s\<lparr>isRefetching := False\<rparr>"
  by (simp add: watcher_callback_def)

lemma create_active:
  "k \<noteq> [] \<Longrightarrow>
   createTurboResource env now (Returns (KString k)) =
     \<lparr>clock = now, key = KString k, resource = None, error = None,
      isRefetching = False, lastFocus = now, watcher = NotInstalled,
      cleanup = None, listeners = [], pending = [(0, InitialResolution)], nextId = Suc 0,
      trace = [CQuery 0 (turbo env) k (initial_options env)],
      thrown = [], returned = False, rejected = None\<rparr>"
  by (simp add: createTurboResource_def turboQuery_def)

lemma finish_create_active:
  assumes "active_key (key t) = Some k" and "pending t = []" and "cleanup t = None"
  shows "queries (trace (finish_create env t)) =
           queries (trace t) @ [(turbo env, k, initial_options env)]"
    and "resource (finish_create env t) = resource t"
    and "watcher (finish_create env t) = Active"
    and "\<exists>q ds. pending (finish_create env t) = [(q, WatcherRun ds)]"
  using assms by (simp_all add: watcher_defs Let_def queries_append)

subsection \<open>Event callbacks\<close>

lemma forgotten_idem:
  "callback env EvForgotten (callback env EvForgotten t) = callback env EvForgotten t"
  by simp

lemma error_idem:
  "callback env (EvError e) (callback env (EvError e) t) = callback env (EvError e) t"
  by (cases e) (simp_all add: set_error_def)

subsection \<open>The focus trigger\<close>

lemma rawHandler_throttled:
  "clock s - lastFocus s \<le> focusInterval env \<Longrightarrow> rawHandler env s = s"
  by (simp add: rawHandler_def)

lemma rawHandler_fires:
  "focusInterval env < clock s - lastFocus s \<Longrightarrow>
   rawHandler env s = fst (refetch env None (s\<lparr>lastFocus := clock s\<rparr>))"
  by (simp add: rawHandler_def)

lemma rawHandler_frame:
  "clock (rawHandler env s) = clock s
   \<and> (lastFocus (rawHandler env s) = lastFocus s \<or> lastFocus (rawHandler env s) = clock s)"
  by (simp add: rawHandler_def Let_def refetch_frame)

lemma rawHandler_queries:
  "length (queries (trace (rawHandler env s))) \<le> Suc (length (queries (trace s)))"
  using refetch_queries [of env None "s\<lparr>lastFocus := clock s\<rparr>"]
  by (simp add: rawHandler_def Let_def)

text \<open>Once a handler has fired, a second handler called at the same time does not.\<close>

lemma rawHandler_idem:
  assumes "0 \<le> focusInterval env"
  shows "rawHandler env (rawHandler env s) = rawHandler env s"
proof (cases "focusInterval env < clock s - lastFocus s")
  case True
  have "clock (rawHandler env s) - lastFocus (rawHandler env s) = 0"
    using True by (simp add: rawHandler_fires refetch_frame)
  then show ?thesis using assms by (simp add: rawHandler_throttled)
next
  case False
  then show ?thesis by (simp add: rawHandler_throttled)
qed

lemma focus_frame:
  "clock (fold (\<lambda>l. rawHandler env) xs s) = clock s
   \<and> (lastFocus (fold (\<lambda>l. rawHandler env) xs s) = lastFocus s
       \<or> lastFocus (fold (\<lambda>l. rawHandler env) xs s) = clock s)"
proof (induction xs arbitrary: s)
  case Nil
  then show ?case by simp
next
  case (Cons x xs)
  show ?case using Cons.IH [of "rawHandler env s"] rawHandler_frame [of env s] by auto
qed

lemma focus_step:
  "0 \<le> focusInterval env \<Longrightarrow>
   step env WindowFocus s = (if listening FocusListener s = [] then s else rawHandler env s)"
  using fold_same [of "rawHandler env" "listening FocusListener s" s]
  by (simp add: rawHandler_idem)

lemma focus_throttled:
  "clock s - lastFocus s \<le> focusInterval env \<Longrightarrow> step env WindowFocus s = s"
  by (simp add: fold_fixed rawHandler_throttled)

lemma focus_twice:
  assumes "int d \<le> focusInterval env"
  shows "length (queries (trace (run env [WindowFocus, Elapse d, WindowFocus] s)))
         \<le> Suc (length (queries (trace s)))"
proof -
  have I: "0 \<le> focusInterval env" using assms by simp
  let ?s1 = "step env WindowFocus s"
  let ?s2 = "step env (Elapse d) ?s1"
  have r: "run env [WindowFocus, Elapse d, WindowFocus] s = step env WindowFocus ?s2"
    by (simp add: run_def)
  show ?thesis
  proof (cases "listening FocusListener s \<noteq> [] \<and> focusInterval env < clock s - lastFocus s")
    case True
    then have s1: "?s1 = rawHandler env s" using I by (simp add: focus_step del: step.simps)
    have "lastFocus ?s1 = clock s" "clock ?s1 = clock s"
      using True unfolding s1 by (simp_all add: rawHandler_fires refetch_frame)
    then have "clock ?s2 - lastFocus ?s2 \<le> focusInterval env" using assms by simp
    then have "step env WindowFocus ?s2 = ?s2" by (rule focus_throttled)
    then show ?thesis unfolding r s1 using rawHandler_queries [of env s] by simp
  next
    case False
    then have s1: "?s1 = s"
      using I by (auto simp: focus_step rawHandler_throttled simp del: step.simps)
    have "step env WindowFocus ?s2 = ?s2 \<or> step env WindowFocus ?s2 = rawHandler env ?s2"
      using I by (simp add: focus_step del: step.simps)
    then show ?thesis unfolding r using rawHandler_queries [of env ?s2] s1 by auto
  qed
qed

section \<open>The claims\<close>

subsection \<open>Subscriptions across key changes\<close>

text \<open>
  C1. On every change from a key K to a key K', the seven disposers registered for K
  (five cache events, focus, online) are to be called before anything is registered for
  K', also when the change happens while the query for K is still awaited. The
  callback registers its cleanup only after \<open>await turboQuery(...)\<close>: when the key changes
  from \<open>A\<close> to \<open>B\<close> before the query for \<open>A\<close> (promise 8) has settled, no cleanup is
  registered yet, nothing is disposed of, and the registrations for \<open>A\<close> and for \<open>B\<close>
  are live together.
\<close>

theorem key_change_while_awaiting_keeps_both_subscription_sets:
  "map fst (pending (awaitingA plainEnv)) = [8]
   \<and> cleanup (awaitingA plainEnv) = None
   \<and> listeners (step plainEnv (KeyChanged (Returns (KString ''B''))) (awaitingA plainEnv)) =
     [(1, CacheListener ''A'' Mutated), (2, CacheListener ''A'' Refetching),
      (3, CacheListener ''A'' Resolved), (4, CacheListener ''A'' Errored),
      (5, CacheListener ''A'' Forgotten), (6, FocusListener), (7, OnlineListener),
      (9, CacheListener ''B'' Mutated), (10, CacheListener ''B'' Refetching),
      (11, CacheListener ''B'' Resolved), (12, CacheListener ''B'' Errored),
      (13, CacheListener ''B'' Forgotten), (14, FocusListener), (15, OnlineListener)]
   \<and> disposals (trace (step plainEnv (KeyChanged (Returns (KString ''B'')))
        (awaitingA plainEnv))) = []"
  by code_simp

text \<open>
  When the query for \<open>A\<close> has resolved before the key changes, the seven registrations
  for \<open>A\<close> are disposed of and only those for \<open>B\<close> are live.
\<close>

lemma key_change_after_settling_disposes_first:
  "listeners (step plainEnv (KeyChanged (Returns (KString ''B''))) (settledA plainEnv)) =
     [(9, CacheListener ''B'' Mutated), (10, CacheListener ''B'' Refetching),
      (11, CacheListener ''B'' Resolved), (12, CacheListener ''B'' Errored),
      (13, CacheListener ''B'' Forgotten), (14, FocusListener), (15, OnlineListener)]
   \<and> disposals (trace (step plainEnv (KeyChanged (Returns (KString ''B'')))
        (settledA plainEnv))) = [1, 2, 3, 4, 5, 6, 7]"
  by code_simp

subsection \<open>The flag \<open>isRefetching\<close>\<close>

text \<open>
  The callback of the key watcher starts with \<open>isRefetching.value = false\<close>: right after
  a key change that the active watcher sees, the flag is false.
\<close>

lemma key_change_resets_isRefetching:
  "watcher s = Active \<Longrightarrow> computedKey k \<noteq> key s \<Longrightarrow>
   isRefetching (step env (KeyChanged k) s) = False"
  by (simp add: job_def watcher_callback_def turboQuery_def turboSubscribe_def onFocus_def
      onConnect_def addEventListener_def Let_def split: option.splits)

text \<open>
  Of the five callbacks only the one for \<open>refetching\<close> sets the flag, and those for
  \<open>resolved\<close> and \<open>error\<close> clear it.
\<close>

lemma isRefetching_set_only_by_refetching:
  "isRefetching (callback env ev s) \<Longrightarrow> \<not> isRefetching s \<Longrightarrow> ev = EvRefetching"
  by (cases ev) (auto simp: set_error_def split: if_splits option.splits)

lemma resolved_and_error_clear_isRefetching:
  "isRefetching (callback env (EvResolved item) s) = False
   \<and> isRefetching (callback env (EvError e) s) = False"
  by (cases e) (simp_all add: set_error_def)

text \<open>
  C2. \<open>isRefetching\<close> is to be false after every key change and never true while the key
  is absent, and only a \<open>refetching\<close> event for the current key is to set it. When the
  key becomes absent while the query for \<open>A\<close> is still awaited, the subscriptions for
  \<open>A\<close> stay registered; a \<open>refetching\<close> event for \<open>A\<close> then sets the flag while no key is
  active.
\<close>

theorem isRefetching_true_while_key_absent:
  "active_key (key (run plainEnv [KeyChanged (Returns KNull)] (awaitingA plainEnv))) = None
   \<and> isRefetching (run plainEnv [KeyChanged (Returns KNull)] (awaitingA plainEnv)) = False
   \<and> active_key (key (run plainEnv [KeyChanged (Returns KNull), CacheEvent ''A'' EvRefetching]
        (awaitingA plainEnv))) = None
   \<and> isRefetching (run plainEnv [KeyChanged (Returns KNull), CacheEvent ''A'' EvRefetching]
        (awaitingA plainEnv)) = True"
  by code_simp

subsection \<open>A key function that throws\<close>

text \<open>
  C3. When the key function throws, the computed key is \<open>null\<close>. A resource created with
  such a key function is returned, not rejected, nothing is thrown, and no call at all
  is made. When a later evaluation throws, the key is \<open>null\<close> again and no query is
  issued, nothing is awaited in addition and nothing is thrown.
\<close>

theorem throwing_key_is_absent_and_issues_no_query:
  "computedKey (Throws x) = KNull
   \<and> returned (createTurboResource env now (Throws x))
   \<and> rejected (createTurboResource env now (Throws x)) = None
   \<and> thrown (createTurboResource env now (Throws x)) = []
   \<and> trace (createTurboResource env now (Throws x)) = []
   \<and> pending (createTurboResource env now (Throws x)) = []
   \<and> key (step env (KeyChanged (Throws x)) s) = KNull
   \<and> queries (trace (step env (KeyChanged (Throws x)) s)) = queries (trace s)
   \<and> pending (step env (KeyChanged (Throws x)) s) = pending s
   \<and> thrown (step env (KeyChanged (Throws x)) s) = thrown s
   \<and> rejected (step env (KeyChanged (Throws x)) s) = rejected s"
proof -
  have created:
    "returned (createTurboResource env now (Throws x))
     \<and> rejected (createTurboResource env now (Throws x)) = None
     \<and> thrown (createTurboResource env now (Throws x)) = []
     \<and> trace (createTurboResource env now (Throws x)) = []
     \<and> pending (createTurboResource env now (Throws x)) = []"
    by (simp add: createTurboResource_def finish_create_def job_def invoke_cleanup_def
        watcher_callback_inactive)
  have changed:
    "key (step env (KeyChanged (Throws x)) s) = KNull
     \<and> queries (trace (step env (KeyChanged (Throws x)) s)) = queries (trace s)
     \<and> pending (step env (KeyChanged (Throws x)) s) = pending s
     \<and> thrown (step env (KeyChanged (Throws x)) s) = thrown s
     \<and> rejected (step env (KeyChanged (Throws x)) s) = rejected s"
    by (simp add: job_def watcher_callback_inactive invoke_cleanup_frame)
  from created changed show ?thesis by simp
qed

subsection \<open>The event \<open>forgotten\<close>\<close>

text \<open>
  C4. With \<open>clearOnForget\<close> false, a \<open>forgotten\<close> event changes nothing; false is the
  value when neither the options nor the context set it. With \<open>clearOnForget\<close> true, a
  \<open>forgotten\<close> event for a key the resource is subscribed to leaves the resource absent.
\<close>

theorem forgotten_clears_only_with_clearOnForget:
  "(\<not> clearOnForget env \<longrightarrow> step env (CacheEvent k EvForgotten) s = s)
   \<and> (clearOnForget env \<and> listening (CacheListener k Forgotten) s \<noteq> [] \<longrightarrow>
        resource (step env (CacheEvent k EvForgotten) s) = None)
   \<and> (optional opt_clearOnForget (options env) = None
        \<and> optional opt_clearOnForget (contextOptions env) = None \<longrightarrow>
        \<not> clearOnForget env)"
  using fold_same [of "callback env EvForgotten" "listening (CacheListener k Forgotten) s" s]
  by (simp add: clearOnForget_def resolve_def)

theorem forgotten_clears_only_with_clearOnForget_witness:
  "\<not> clearOnForget plainEnv
   \<and> step plainEnv (CacheEvent ''A'' EvForgotten) (settledA plainEnv) = settledA plainEnv
   \<and> clearOnForget clearingEnv
   \<and> listening (CacheListener ''A'' Forgotten) (settledA clearingEnv) \<noteq> []
   \<and> resource (settledA clearingEnv) = Some ''second''
   \<and> resource (step clearingEnv (CacheEvent ''A'' EvForgotten) (settledA clearingEnv)) = None
   \<and> optional opt_clearOnForget (options plainEnv) = None
   \<and> optional opt_clearOnForget (contextOptions plainEnv) = None"
proof -
  have h1: "\<not> clearOnForget plainEnv" by code_simp
  have h2: "clearOnForget clearingEnv
    \<and> listening (CacheListener ''A'' Forgotten) (settledA clearingEnv) \<noteq> []
    \<and> resource (settledA clearingEnv) = Some ''second''" by code_simp
  have h3: "optional opt_clearOnForget (options plainEnv) = None
    \<and> optional opt_clearOnForget (contextOptions plainEnv) = None"
    by (simp add: plainEnv_def optional_def)
  show ?thesis
    using h1 h2 h3
      forgotten_clears_only_with_clearOnForget [of plainEnv "''A''" "settledA plainEnv"]
      forgotten_clears_only_with_clearOnForget [of clearingEnv "''A''" "settledA clearingEnv"]
    by blast
qed

subsection \<open>The focus trigger\<close>

text \<open>
  C5. A focus event within \<open>focusInterval\<close> of \<open>lastFocus\<close> changes nothing: no refetch,
  and \<open>lastFocus\<close> stays. When a focus event changes \<open>lastFocus\<close>, the interval had been
  strictly exceeded and \<open>lastFocus\<close> is the time of the event. When the interval has
  been exceeded, a focus listener is registered and a key is active, the refetch query
  is issued. Two focus events no further apart than \<open>focusInterval\<close> issue at most one
  query. \<open>focusInterval\<close> is 5000 when neither the options nor the context set it.
\<close>

theorem focus_refetch_is_throttled:
  "(clock s - lastFocus s \<le> focusInterval env \<longrightarrow> step env WindowFocus s = s)
   \<and> (lastFocus (step env WindowFocus s) \<noteq> lastFocus s \<longrightarrow>
        focusInterval env < clock s - lastFocus s
        \<and> lastFocus (step env WindowFocus s) = clock s)
   \<and> (0 \<le> focusInterval env \<and> focusInterval env < clock s - lastFocus s
        \<and> listening FocusListener s \<noteq> [] \<and> active_key (key s) = Some k \<longrightarrow>
        lastFocus (step env WindowFocus s) = clock s
        \<and> trace (step env WindowFocus s) =
            trace s @ [CQuery (nextId s) (turbo env) k (refetch_options env None)])
   \<and> (int d \<le> focusInterval env \<longrightarrow>
        length (queries (trace (run env [WindowFocus, Elapse d, WindowFocus] s)))
        \<le> Suc (length (queries (trace s))))
   \<and> (optional opt_focusInterval (options env) = None
        \<and> optional opt_focusInterval (contextOptions env) = None \<longrightarrow>
        focusInterval env = 5000)"
proof -
  have a: "clock s - lastFocus s \<le> focusInterval env \<longrightarrow> step env WindowFocus s = s"
    by (simp add: focus_throttled del: step.simps)
  have b: "lastFocus (step env WindowFocus s) \<noteq> lastFocus s \<longrightarrow>
        focusInterval env < clock s - lastFocus s
        \<and> lastFocus (step env WindowFocus s) = clock s"
    using focus_frame [of env "listening FocusListener s" s] focus_throttled [of s env]
    by (cases "clock s - lastFocus s \<le> focusInterval env") auto
  have c: "0 \<le> focusInterval env \<and> focusInterval env < clock s - lastFocus s
        \<and> listening FocusListener s \<noteq> [] \<and> active_key (key s) = Some k \<longrightarrow>
        lastFocus (step env WindowFocus s) = clock s
        \<and> trace (step env WindowFocus s) =
            trace s @ [CQuery (nextId s) (turbo env) k (refetch_options env None)]"
    by (simp add: focus_step rawHandler_fires refetch_active del: step.simps)
  have d: "int d \<le> focusInterval env \<longrightarrow>
        length (queries (trace (run env [WindowFocus, Elapse d, WindowFocus] s)))
        \<le> Suc (length (queries (trace s)))"
    using focus_twice by blast
  have e: "optional opt_focusInterval (options env) = None
        \<and> optional opt_focusInterval (contextOptions env) = None \<longrightarrow>
        focusInterval env = 5000"
    by (simp add: focusInterval_def resolve_def)
  from a b c d e show ?thesis by blast
qed

theorem focus_refetch_is_throttled_witness:
  "clock (settledA plainEnv) - lastFocus (settledA plainEnv) \<le> focusInterval plainEnv
   \<and> step plainEnv WindowFocus (settledA plainEnv) = settledA plainEnv
   \<and> lastFocus (step plainEnv WindowFocus (step plainEnv (Elapse 6000) (settledA plainEnv)))
       \<noteq> lastFocus (step plainEnv (Elapse 6000) (settledA plainEnv))
   \<and> 0 \<le> focusInterval plainEnv
   \<and> focusInterval plainEnv < clock (step plainEnv (Elapse 6000) (settledA plainEnv))
        - lastFocus (step plainEnv (Elapse 6000) (settledA plainEnv))
   \<and> listening FocusListener (step plainEnv (Elapse 6000) (settledA plainEnv)) \<noteq> []
   \<and> active_key (key (step plainEnv (Elapse 6000) (settledA plainEnv))) = Some ''A''
   \<and> lastFocus (step plainEnv WindowFocus (step plainEnv (Elapse 6000) (settledA plainEnv)))
       = clock (step plainEnv (Elapse 6000) (settledA plainEnv))
   \<and> int 3000 \<le> focusInterval plainEnv
   \<and> length (queries (trace (run plainEnv [WindowFocus, Elapse 3000, WindowFocus]
        (step plainEnv (Elapse 6000) (settledA plainEnv)))))
       \<le> Suc (length (queries (trace (step plainEnv (Elapse 6000) (settledA plainEnv)))))
   \<and> optional opt_focusInterval (options plainEnv) = None
   \<and> optional opt_focusInterval (contextOptions plainEnv) = None
   \<and> focusInterval plainEnv = 5000"
proof -
  have h1: "clock (settledA plainEnv) - lastFocus (settledA plainEnv) \<le> focusInterval plainEnv"
    by code_simp
  have h2: "lastFocus (step plainEnv WindowFocus (step plainEnv (Elapse 6000) (settledA plainEnv)))
       \<noteq> lastFocus (step plainEnv (Elapse 6000) (settledA plainEnv))"
    by code_simp
  have h3: "0 \<le> focusInterval plainEnv
    \<and> focusInterval plainEnv < clock (step plainEnv (Elapse 6000) (settledA plainEnv))
        - lastFocus (step plainEnv (Elapse 6000) (settledA plainEnv))
    \<and> listening FocusListener (step plainEnv (Elapse 6000) (settledA plainEnv)) \<noteq> []
    \<and> active_key (key (step plainEnv (Elapse 6000) (settledA plainEnv))) = Some ''A''"
    by code_simp
  have h4: "int 3000 \<le> focusInterval plainEnv" by code_simp
  have h5: "optional opt_focusInterval (options plainEnv) = None
    \<and> optional opt_focusInterval (contextOptions plainEnv) = None"
    by (simp add: plainEnv_def optional_def)
  show ?thesis
    using h1 h2 h3 h4 h5
      focus_refetch_is_throttled [of "settledA plainEnv" plainEnv "''A''" 3000]
      focus_refetch_is_throttled [of "step plainEnv (Elapse 6000) (settledA plainEnv)"
        plainEnv "''A''" 3000]
    by blast
qed

subsection \<open>The event \<open>error\<close>\<close>

text \<open>
  The claim C6 as it is written, that each occurrence of an \<open>error\<close> event is thrown
  again, also when the payload repeats, fails: the watcher on the error cell runs only
  when the cell's value changes. Of two \<open>error\<close> events with the payload \<open>boom\<close>, the
  first is thrown and the second is not.
\<close>

theorem repeated_error_payload_is_thrown_once:
  "thrown (run plainEnv [CacheEvent ''A'' (EvError (Some ''boom''))] (settledA plainEnv)) =
     [''boom'']
   \<and> error (run plainEnv [CacheEvent ''A'' (EvError (Some ''boom''))] (settledA plainEnv)) =
     Some ''boom''
   \<and> thrown (run plainEnv [CacheEvent ''A'' (EvError (Some ''boom'')),
        CacheEvent ''A'' (EvError (Some ''boom''))] (settledA plainEnv)) = [''boom'']"
  by code_simp

text \<open>
  C6, amended. An \<open>error\<close> event with a defined payload, for a key the resource is
  subscribed to, sets the error cell to the payload and \<open>isRefetching\<close> to false. The
  payload is thrown once when it differs from what the error cell held, and not at all
  when the cell already held it.
\<close>

theorem error_event_sets_slot_and_throws_on_change:
  "listening (CacheListener k Errored) s \<noteq> [] \<Longrightarrow>
     error (step env (CacheEvent k (EvError (Some e))) s) = Some e
     \<and> isRefetching (step env (CacheEvent k (EvError (Some e))) s) = False
     \<and> thrown (step env (CacheEvent k (EvError (Some e))) s) =
         (if error s = Some e then thrown s else thrown s @ [e])"
  using fold_same [of "callback env (EvError (Some e))" "listening (CacheListener k Errored) s" s]
  by (simp add: error_idem set_error_def)

theorem error_event_sets_slot_and_throws_on_change_witness:
  "listening (CacheListener ''A'' Errored) (settledA plainEnv) \<noteq> []
   \<and> error (settledA plainEnv) = None
   \<and> error (step plainEnv (CacheEvent ''A'' (EvError (Some ''boom''))) (settledA plainEnv)) =
       Some ''boom''
   \<and> thrown (step plainEnv (CacheEvent ''A'' (EvError (Some ''boom''))) (settledA plainEnv)) =
       [''boom'']"
proof -
  have h: "listening (CacheListener ''A'' Errored) (settledA plainEnv) \<noteq> []" by code_simp
  have e: "error (settledA plainEnv) = None \<and> thrown (settledA plainEnv) = []" by code_simp
  show ?thesis
    using h e
      error_event_sets_slot_and_throws_on_change [where k = "''A''" and s = "settledA plainEnv"
        and env = plainEnv and e = "''boom''"]
    by (simp del: step.simps)
qed

subsection \<open>The actions \<open>refetch\<close>, \<open>mutate\<close>, \<open>forget\<close> and \<open>abort\<close>\<close>

text \<open>
  C7. With no active key, \<open>refetch\<close> returns the promise of \<open>undefined\<close> and changes
  nothing, and \<open>mutate\<close>, \<open>forget\<close> and \<open>abort\<close> change nothing: no call is made. With
  the active key \<open>k\<close>, each of them makes exactly one call, for \<open>k\<close>, to the resolved
  engine: \<open>refetch\<close> issues a query and returns its promise, the others call \<open>mutate\<close>,
  \<open>forget\<close> and \<open>abort\<close>. The resolved engine is the instance of the options, else the
  instance of the context, else the module's.
\<close>

theorem actions_without_key_are_noops_else_delegate:
  "(active_key (key s) = None \<longrightarrow>
      refetch env ops s = (s, None) \<and> localMutate env item s = s
      \<and> localForget env s = s \<and> localAbort env reason s = s)
   \<and> (active_key (key s) = Some k \<longrightarrow>
      fst (refetch env ops s) =
        s\<lparr>trace := trace s @ [CQuery (nextId s) (turbo env) k (refetch_options env ops)],
          nextId := Suc (nextId s)\<rparr>
      \<and> snd (refetch env ops s) = Some (nextId s)
      \<and> localMutate env item s = s\<lparr>trace := trace s @ [CMutate (turbo env) k item]\<rparr>
      \<and> localForget env s = s\<lparr>trace := trace s @ [CForget (turbo env) k]\<rparr>
      \<and> localAbort env reason s = s\<lparr>trace := trace s @ [CAbort (turbo env) k reason]\<rparr>)
   \<and> (optional opt_turbo (options env) = Some i \<longrightarrow> turbo env = InstanceEngine i)
   \<and> (optional opt_turbo (options env) = None
        \<and> optional opt_turbo (contextOptions env) = Some j \<longrightarrow>
        turbo env = InstanceEngine j)
   \<and> (optional opt_turbo (options env) = None
        \<and> optional opt_turbo (contextOptions env) = None \<longrightarrow>
        turbo env = ModuleEngine)"
  using actions_inactive [of s env ops item reason] actions_active [of s k env ops item reason]
    turbo_precedence [of env i j]
  by blast

theorem actions_without_key_are_noops_else_delegate_witness:
  "active_key (key (run plainEnv [KeyChanged (Returns KNull)] (settledA plainEnv))) = None
   \<and> refetch plainEnv None (run plainEnv [KeyChanged (Returns KNull)] (settledA plainEnv)) =
       (run plainEnv [KeyChanged (Returns KNull)] (settledA plainEnv), None)
   \<and> localMutate plainEnv ''item'' (run plainEnv [KeyChanged (Returns KNull)] (settledA plainEnv))
       = run plainEnv [KeyChanged (Returns KNull)] (settledA plainEnv)
   \<and> active_key (key (settledA instanceEnv)) = Some ''A''
   \<and> snd (refetch instanceEnv None (settledA instanceEnv)) = Some (nextId (settledA instanceEnv))
   \<and> localForget instanceEnv (settledA instanceEnv) =
       (settledA instanceEnv)\<lparr>trace := trace (settledA instanceEnv) @
          [CForget (InstanceEngine 1) ''A'']\<rparr>
   \<and> optional opt_turbo (options instanceEnv) = Some 1
   \<and> turbo instanceEnv = InstanceEngine 1
   \<and> optional opt_turbo (options contextEnv) = None
   \<and> optional opt_turbo (contextOptions contextEnv) = Some 2
   \<and> turbo contextEnv = InstanceEngine 2
   \<and> optional opt_turbo (options plainEnv) = None
   \<and> optional opt_turbo (contextOptions plainEnv) = None
   \<and> turbo plainEnv = ModuleEngine"
proof -
  have h1: "active_key (key (run plainEnv [KeyChanged (Returns KNull)] (settledA plainEnv))) = None"
    by code_simp
  have h2: "active_key (key (settledA instanceEnv)) = Some ''A''" by code_simp
  have h3: "optional opt_turbo (options instanceEnv) = Some 1"
    by (simp add: instanceEnv_def noOptions_def optional_def)
  have h4: "optional opt_turbo (options contextEnv) = None
    \<and> optional opt_turbo (contextOptions contextEnv) = Some 2"
    by (simp add: contextEnv_def noOptions_def optional_def)
  have h5: "optional opt_turbo (options plainEnv) = None
    \<and> optional opt_turbo (contextOptions plainEnv) = None"
    by (simp add: plainEnv_def optional_def)
  note a = actions_without_key_are_noops_else_delegate
    [of "run plainEnv [KeyChanged (Returns KNull)] (settledA plainEnv)" plainEnv None
      "''item''" None "''A''" 1 2]
  note b = actions_without_key_are_noops_else_delegate
    [of "settledA instanceEnv" instanceEnv None "''item''" None "''A''" 1 2]
  note c = actions_without_key_are_noops_else_delegate
    [of "settledA contextEnv" contextEnv None "''item''" None "''A''" 1 2]
  have r1: "refetch plainEnv None (run plainEnv [KeyChanged (Returns KNull)] (settledA plainEnv)) =
       (run plainEnv [KeyChanged (Returns KNull)] (settledA plainEnv), None)
     \<and> localMutate plainEnv ''item'' (run plainEnv [KeyChanged (Returns KNull)] (settledA plainEnv))
       = run plainEnv [KeyChanged (Returns KNull)] (settledA plainEnv)
     \<and> turbo plainEnv = ModuleEngine"
    using a h1 h5 by blast
  have r2: "snd (refetch instanceEnv None (settledA instanceEnv)) = Some (nextId (settledA instanceEnv))
     \<and> localForget instanceEnv (settledA instanceEnv) =
       (settledA instanceEnv)\<lparr>trace := trace (settledA instanceEnv) @
          [CForget (turbo instanceEnv) ''A'']\<rparr>
     \<and> turbo instanceEnv = InstanceEngine 1"
    using b h2 h3 by blast
  have r3: "turbo contextEnv = InstanceEngine 2"
    using c h4 by blast
  show ?thesis using h1 h2 h3 h4 h5 r1 r2 r3 by simp
qed

subsection \<open>The staleness tracker\<close>

text \<open>A tracker starts without a timer, so a poll leaves it as it was created.\<close>

lemma createStale_has_no_timer:
  "interval (createStale expiration prec now k) = None
   \<and> poll expiration later (createStale expiration prec now k) =
       createStale expiration prec now k"
  by (simp add: createStale_def poll_def Let_def)

text \<open>
  With a timer for an active key whose expiration is known, a poll sets \<open>staleIn\<close> to
  \<open>max 0 (expiresAt - now)\<close> and \<open>isStale\<close> to \<open>expiresAt < now\<close>.
\<close>

lemma poll_recomputes:
  assumes "interval t = Some k" and "active_key k = Some ck"
    and "expiration ck = Some expiresAt" and "0 \<le> staleIn t"
  shows "staleIn (poll expiration now t) = max 0 (expiresAt - now)
         \<and> isStale (poll expiration now t) = (expiresAt < now)"
  using assms by (simp add: poll_def poll_body_def Let_def)

lemma stale_unmounted_stops:
  "poll expiration now (stale_unmounted t) = stale_unmounted t
   \<and> stale_key_changed k (stale_unmounted t) = stale_unmounted t"
  by (simp add: poll_def stale_unmounted_def stale_key_changed_def)

text \<open>After the key has changed away and back, the timer exists and the poll works.\<close>

lemma poll_after_key_change:
  "poll expiresAt1000 2000
     (stale_key_changed (KString ''A'')
       (stale_key_changed KNull (createStale expiresAt1000 100 0 (KString ''A'')))) =
   \<lparr>isStale = True, staleIn = 0, precision = 100, oldValue = KString ''A'',
    interval = Some (KString ''A''), stopped = False\<rparr>"
  by code_simp

text \<open>
  C8. \<open>createStale\<close> is to poll for the lifetime of the current key, the key current at
  creation included. The tracker's watcher has no \<open>immediate\<close> option: no timer exists
  until the key changes. For the key \<open>A\<close> expiring at time 1000, a tracker created at
  time 0 starts with \<open>isStale = false\<close> and \<open>staleIn = 1000\<close>, has no timer, and is
  unchanged by a poll at time 2000, past the expiration.
\<close>

theorem createStale_never_polls_the_initial_key:
  "createStale expiresAt1000 100 0 (KString ''A'') =
     \<lparr>isStale = False, staleIn = 1000, precision = 100, oldValue = KString ''A'',
      interval = None, stopped = False\<rparr>
   \<and> poll expiresAt1000 2000 (createStale expiresAt1000 100 0 (KString ''A'')) =
     \<lparr>isStale = False, staleIn = 1000, precision = 100, oldValue = KString ''A'',
      interval = None, stopped = False\<rparr>"
  by code_simp

subsection \<open>The options of \<open>refetch\<close>\<close>

text \<open>
  The claim C9 as it is written, that the query of \<open>refetch\<close> has \<open>stale = false\<close>
  whatever the options the resource was created with, fails: \<open>stale: false\<close> is written
  before the spread of the options. Created with \<open>stale: true\<close>, the resource issues
  its refetch query for \<open>A\<close> with \<open>stale = true\<close>.
\<close>

theorem refetch_with_stale_option_issues_stale_query:
  "active_key (key (settledA staleEnv)) = Some ''A''
   \<and> issued_stale (trace (fst (refetch staleEnv None (settledA staleEnv)))) =
       issued_stale (trace (settledA staleEnv)) @ [(''A'', Value True)]"
  by code_simp

text \<open>
  C9, amended. With an active key \<open>k\<close>, \<open>refetch(ops)\<close> issues one query for \<open>k\<close> to the
  resolved engine and returns its promise. The options of the query are
  \<open>{ stale: false }\<close> overlaid by the options of creation, overlaid by \<open>ops\<close>: its
  \<open>stale\<close> is the own property of \<open>ops\<close> when \<open>ops\<close> has one, also when that holds
  \<open>undefined\<close>; else the own property of the options of creation when they have one,
  also when that holds \<open>undefined\<close>; else false. Every other property of the query
  options is that of \<open>ops\<close> over that of the options of creation, and the properties
  that only the options of creation have are passed as they are.
\<close>

theorem refetch_merges_ops_over_options_over_fresh:
  "active_key (key s) = Some k \<Longrightarrow>
     trace (fst (refetch env ops s)) =
       trace s @ [CQuery (nextId s) (turbo env) k (refetch_options env ops)]
     \<and> snd (refetch env ops s) = Some (nextId s)
     \<and> opt_stale (refetch_options env ops) =
         (case own opt_stale ops of
            Value b \<Rightarrow> Value b
          | Undefined \<Rightarrow> Undefined
          | Absent \<Rightarrow> (case own opt_stale (options env) of
                         Value c \<Rightarrow> Value c
                       | Undefined \<Rightarrow> Undefined
                       | Absent \<Rightarrow> Value False))
     \<and> opt_passthrough (refetch_options env ops) n =
         over (own (\<lambda>x. opt_passthrough x n) (options env)) (own (\<lambda>x. opt_passthrough x n) ops)
     \<and> opt_turbo (refetch_options env ops) = own opt_turbo (options env)
     \<and> opt_refetchOnFocus (refetch_options env ops) = own opt_refetchOnFocus (options env)
     \<and> opt_refetchOnConnect (refetch_options env ops) = own opt_refetchOnConnect (options env)
     \<and> opt_focusInterval (refetch_options env ops) = own opt_focusInterval (options env)
     \<and> opt_clearOnForget (refetch_options env ops) = own opt_clearOnForget (options env)"
  by (simp add: refetch_active refetch_options_def spread_def spread_query_def only_stale_def
      over_Absent split: field.splits)

theorem refetch_merges_ops_over_options_over_fresh_witness:
  "active_key (key (settledA plainEnv)) = Some ''A''
   \<and> snd (refetch plainEnv None (settledA plainEnv)) = Some 9
   \<and> opt_stale (refetch_options plainEnv None) = Value False
   \<and> opt_stale (refetch_options plainEnv (Some staleUndefined)) = Undefined
   \<and> active_key (key (settledA staleEnv)) = Some ''A''
   \<and> opt_stale (refetch_options staleEnv None) = Value True
   \<and> opt_stale (refetch_options staleEnv (Some staleFalse)) = Value False
   \<and> opt_stale (refetch_options staleEnv (Some staleUndefined)) = Undefined"
proof -
  have h1: "active_key (key (settledA plainEnv)) = Some ''A'' \<and> nextId (settledA plainEnv) = 9"
    by code_simp
  have h2: "active_key (key (settledA staleEnv)) = Some ''A''" by code_simp
  have o: "own opt_stale (options plainEnv) = Absent"
    "own opt_stale (options staleEnv) = Value True"
    "own opt_stale (None :: turbo_query_options option) = Absent"
    "own opt_stale (Some staleUndefined) = Undefined"
    "own opt_stale (Some staleFalse) = Value False"
    by (simp_all add: own_def plainEnv_def staleEnv_def noOptions_def staleUndefined_def
        staleFalse_def)
  note a = refetch_merges_ops_over_options_over_fresh
    [of "settledA plainEnv" "''A''" plainEnv None "''fresh''"]
  note b = refetch_merges_ops_over_options_over_fresh
    [of "settledA plainEnv" "''A''" plainEnv "Some staleUndefined" "''fresh''"]
  note c = refetch_merges_ops_over_options_over_fresh
    [of "settledA staleEnv" "''A''" staleEnv None "''fresh''"]
  note d = refetch_merges_ops_over_options_over_fresh
    [of "settledA staleEnv" "''A''" staleEnv "Some staleFalse" "''fresh''"]
  note e = refetch_merges_ops_over_options_over_fresh
    [of "settledA staleEnv" "''A''" staleEnv "Some staleUndefined" "''fresh''"]
  show ?thesis using h1 h2 o a b c d e by simp
qed

subsection \<open>Creation with an active key\<close>

text \<open>
  The claim C10 as it is written, that a key defined at creation is queried twice with
  the stale-accepting query, fails in three ways. Created with \<open>{ stale: false }\<close>,
  both queries have \<open>stale = false\<close>. When the initial query is rejected, it is the
  only query. When the key changes to \<open>B\<close> while the initial query is awaited, the
  second query is for \<open>B\<close>.
\<close>

theorem creation_queries_are_not_always_two_stale_ones_for_one_key:
  "issued_stale (trace (step freshEnv (Settled 0 (Inr ''first''))
      (createTurboResource freshEnv 0 (Returns (KString ''A''))))) =
     [(''A'', Value False), (''A'', Value False)]
   \<and> issued_stale (trace (step plainEnv (Settled 0 (Inl ''failed''))
      (createTurboResource plainEnv 0 (Returns (KString ''A''))))) =
     [(''A'', Value True)]
   \<and> issued_stale (trace (run plainEnv
      [KeyChanged (Returns (KString ''B'')), Settled 0 (Inr ''first'')]
      (createTurboResource plainEnv 0 (Returns (KString ''A''))))) =
     [(''A'', Value True), (''B'', Value True)]"
  by code_simp

text \<open>
  C10, amended. Created with an active key \<open>k\<close>, the resource first issues one query
  for \<open>k\<close> with the options \<open>{ stale: true, ...options }\<close>, whose \<open>stale\<close> is the own
  property of the options of creation when they have one and true otherwise, and
  awaits it with no key watcher installed. When that query is rejected, the creation is
  rejected, no watcher is installed and no other query is issued. When it resolves
  with \<open>v1\<close>, the resource holds \<open>v1\<close>, the watcher is installed and its immediate run
  queries, with the same options, the key current then: the key \<open>k\<close> a second time
  when the key has not changed, the new key when it has changed to an active one, and
  nothing when it is no longer active. With the key unchanged, that second query is
  the only one awaited, and when it resolves with \<open>v2\<close> the resource holds \<open>v2\<close>.
\<close>

theorem active_key_at_creation_is_queried_twice:
  fixes v1 v2 e :: 'a
  assumes "k \<noteq> []"
  shows
    "queries (trace (createTurboResource env now (Returns (KString k)))) =
       [(turbo env, k, initial_options env)]
     \<and> watcher (createTurboResource env now (Returns (KString k))) = NotInstalled
     \<and> pending (createTurboResource env now (Returns (KString k))) = [(0, InitialResolution)]
     \<and> opt_stale (initial_options env) =
         (case own opt_stale (options env) of
            Value c \<Rightarrow> Value c
          | Undefined \<Rightarrow> Undefined
          | Absent \<Rightarrow> Value True)
     \<and> resource (step env (Settled 0 (Inr v1))
          (createTurboResource env now (Returns (KString k)))) = Some v1
     \<and> watcher (step env (Settled 0 (Inr v1))
          (createTurboResource env now (Returns (KString k)))) = Active
     \<and> queries (trace (step env (Settled 0 (Inr v1))
          (createTurboResource env now (Returns (KString k))))) =
         [(turbo env, k, initial_options env), (turbo env, k, initial_options env)]
     \<and> (\<exists>q ds.
          pending (step env (Settled 0 (Inr v1))
            (createTurboResource env now (Returns (KString k)))) = [(q, WatcherRun ds)]
          \<and> resource (step env (Settled q (Inr v2))
              (step env (Settled 0 (Inr v1))
                (createTurboResource env now (Returns (KString k))))) = Some v2)
     \<and> rejected (step env (Settled 0 (Inl e))
          (createTurboResource env now (Returns (KString k)))) = Some e
     \<and> watcher (step env (Settled 0 (Inl e))
          (createTurboResource env now (Returns (KString k)))) = NotInstalled
     \<and> queries (trace (step env (Settled 0 (Inl e))
          (createTurboResource env now (Returns (KString k))))) =
         [(turbo env, k, initial_options env)]
     \<and> queries (trace (run env [KeyChanged k2, Settled 0 (Inr v1)]
          (createTurboResource env now (Returns (KString k))))) =
         (case active_key (computedKey k2) of
            None \<Rightarrow> [(turbo env, k, initial_options env)]
          | Some k3 \<Rightarrow> [(turbo env, k, initial_options env),
                         (turbo env, k3, initial_options env)])"
proof -
  let ?s1 = "createTurboResource env now (Returns (KString k)) :: 'a turbo_resource"
  let ?t = "?s1\<lparr>pending := [], resource := Some v1\<rparr>"
  let ?u = "?s1\<lparr>key := computedKey k2, pending := [], resource := Some v1\<rparr>"
  have s2: "step env (Settled 0 (Inr v1)) ?s1 = finish_create env ?t"
    using assms by (simp add: create_active)
  have t: "active_key (key ?t) = Some k" "pending ?t = []" "cleanup ?t = None"
    "resource ?t = Some v1" "queries (trace ?t) = [(turbo env, k, initial_options env)]"
    using assms by (simp_all add: create_active)
  obtain q ds where p: "pending (finish_create env ?t) = [(q, WatcherRun ds)]"
    using finish_create_active(4) [OF t(1-3)] by blast
  have "resource (step env (Settled q (Inr v2)) (finish_create env ?t)) = Some v2"
    using p by simp
  with p have last: "\<exists>q ds. pending (finish_create env ?t) = [(q, WatcherRun ds)]
      \<and> resource (step env (Settled q (Inr v2)) (finish_create env ?t)) = Some v2"
    by blast
  have stale: "opt_stale (initial_options env) =
         (case own opt_stale (options env) of
            Value c \<Rightarrow> Value c
          | Undefined \<Rightarrow> Undefined
          | Absent \<Rightarrow> Value True)"
    by (simp add: initial_options_def spread_def only_stale_def over_Absent
        split: field.splits)
  have rej: "rejected (step env (Settled 0 (Inl e)) ?s1) = Some e
     \<and> watcher (step env (Settled 0 (Inl e)) ?s1) = NotInstalled
     \<and> queries (trace (step env (Settled 0 (Inl e)) ?s1)) =
         [(turbo env, k, initial_options env)]"
    using assms by (simp add: create_active)
  have r: "run env [KeyChanged k2, Settled 0 (Inr v1)] ?s1 = finish_create env ?u"
    using assms by (simp add: run_def create_active)
  have u: "pending ?u = []" "cleanup ?u = None" "key ?u = computedKey k2"
    "queries (trace ?u) = [(turbo env, k, initial_options env)]"
    using assms by (simp_all add: create_active)
  have changed: "queries (trace (finish_create env ?u)) =
         (case active_key (computedKey k2) of
            None \<Rightarrow> [(turbo env, k, initial_options env)]
          | Some k3 \<Rightarrow> [(turbo env, k, initial_options env),
                         (turbo env, k3, initial_options env)])"
  proof (cases "active_key (computedKey k2)")
    case None
    then have "active_key (key ?u) = None" using u(3) by simp
    then have "finish_create env ?u =
        (?u\<lparr>lastFocus := clock ?u, watcher := Active, isRefetching := False\<rparr>)\<lparr>returned := True\<rparr>"
      using u(2) by (simp add: finish_create_def job_def invoke_cleanup_def watcher_callback_def)
    then show ?thesis using None u(4) by simp
  next
    case (Some k3)
    then have "active_key (key ?u) = Some k3" using u(3) by simp
    from finish_create_active(1) [OF this u(1) u(2), of env] show ?thesis
      using Some u(4) by simp
  qed
  show ?thesis
    unfolding s2 r
    using assms last finish_create_active(1-3) [OF t(1-3), of env] t(4,5) stale rej changed
    by (simp add: create_active)
qed

theorem active_key_at_creation_is_queried_twice_witness:
  "''A'' \<noteq> []
   \<and> issued_stale (trace (step plainEnv (Settled 0 (Inr ''first''))
        (createTurboResource plainEnv 0 (Returns (KString ''A''))))) =
       [(''A'', Value True), (''A'', Value True)]
   \<and> queries (trace (step plainEnv (Settled 0 (Inr ''first''))
        (createTurboResource plainEnv 0 (Returns (KString ''A''))))) =
       [(turbo plainEnv, ''A'', initial_options plainEnv),
        (turbo plainEnv, ''A'', initial_options plainEnv)]
   \<and> opt_stale (initial_options plainEnv) = Value True
   \<and> opt_stale (initial_options freshEnv) = Value False
   \<and> resource (step plainEnv (Settled 0 (Inr ''first''))
        (createTurboResource plainEnv 0 (Returns (KString ''A'')))) = Some ''first''
   \<and> resource (step plainEnv (Settled 8 (Inr ''second''))
        (step plainEnv (Settled 0 (Inr ''first''))
          (createTurboResource plainEnv 0 (Returns (KString ''A''))))) = Some ''second''
   \<and> rejected (step plainEnv (Settled 0 (Inl ''failed''))
        (createTurboResource plainEnv 0 (Returns (KString ''A'')))) = Some ''failed''"
proof -
  have h: "''A'' \<noteq> []" by simp
  have e: "issued_stale (trace (step plainEnv (Settled 0 (Inr ''first''))
        (createTurboResource plainEnv 0 (Returns (KString ''A''))))) =
       [(''A'', Value True), (''A'', Value True)]
     \<and> resource (step plainEnv (Settled 8 (Inr ''second''))
        (step plainEnv (Settled 0 (Inr ''first''))
          (createTurboResource plainEnv 0 (Returns (KString ''A''))))) = Some ''second''"
    by code_simp
  have o: "own opt_stale (options plainEnv) = Absent"
    "own opt_stale (options freshEnv) = Value False"
    by (simp_all add: own_def plainEnv_def freshEnv_def noOptions_def)
  note a = active_key_at_creation_is_queried_twice
    [OF h, of plainEnv 0 "''first''" "''second''" "''failed''" "Returns (KString ''A'')"]
  note b = active_key_at_creation_is_queried_twice
    [OF h, of freshEnv 0 "''first''" "''second''" "''failed''" "Returns (KString ''A'')"]
  have s1: "opt_stale (initial_options plainEnv) = Value True"
    using a [THEN conjunct2, THEN conjunct2, THEN conjunct2, THEN conjunct1] o by simp
  have s2: "opt_stale (initial_options freshEnv) = Value False"
    using b [THEN conjunct2, THEN conjunct2, THEN conjunct2, THEN conjunct1] o by simp
  show ?thesis using h e a s1 s2 by blast
qed

end
